theory Spec2Isabelle
  imports Main
begin

section \<open>Values exchanged with the host framework\<close>

text \<open>
  The module \<^verbatim>\<open>wagtail/locks.py\<close> decides, for a lockable object, whether a user is
  blocked from editing it and which message explains the lock. Its methods return Python
  values of several kinds (\<^verbatim>\<open>True\<close>/\<^verbatim>\<open>False\<close>, \<^verbatim>\<open>None\<close>, \<^verbatim>\<open>NotImplemented\<close>, text), and
  an attribute read on \<^verbatim>\<open>None\<close> raises \<^verbatim>\<open>AttributeError\<close>.
\<close>

datatype error = AttributeError

record datetime =
  year :: nat
  month :: nat
  day :: nat
  hour :: nat
  minute :: nat

text \<open>
  A keyword argument handed to \<^verbatim>\<open>format_html\<close>: a string, or the result of
  \<^verbatim>\<open>value.strftime(fmt)\<close>, kept as the call that produces it.
\<close>

datatype fmt_value = Str string | Strftime datetime string

text \<open>
  Text is built by Django's helpers only. A text value is kept as the term of library
  calls that builds it, so that the template chosen by a branch stays visible:
  \<^verbatim>\<open>_(msgid)\<close>, \<^verbatim>\<open>format_html(template, **kwargs)\<close>, \<^verbatim>\<open>a + b\<close>, a string literal,
  \<^verbatim>\<open>mark_safe(t)\<close> and \<^verbatim>\<open>capfirst(t)\<close>.
\<close>

datatype pytext =
    gettext string
  | format_html pytext "(string \<times> fmt_value) list"
  | Concat pytext pytext
  | Literal string
  | mark_safe pytext
  | capfirst pytext

datatype pyval = PyNone | PyBool bool | PyNotImplemented | PyStr pytext

text \<open>Truth value of a Python value in an \<^verbatim>\<open>if\<close>; text built here is never empty.\<close>

fun truthy :: "pyval \<Rightarrow> bool" where
  "truthy PyNone = False"
| "truthy (PyBool b) = b"
| "truthy PyNotImplemented = True"
| "truthy (PyStr t) = True"

section \<open>Data model\<close>

text \<open>The user evaluated against a lock; \<^verbatim>\<open>pk\<close> is \<^verbatim>\<open>None\<close> for an unsaved or anonymous user.\<close>

record user =
  pk :: "int option"
  username :: string

text \<open>\<^verbatim>\<open>str(user)\<close>.\<close>

definition str_user :: "user \<Rightarrow> string" where
  "str_user u = username u"

record revision =
  approved_go_live_at :: "datetime option"
  object_str :: string

record workflow =
  workflow_name :: string

record task_with_status =
  listed_task_name :: string
  status :: string

record workflow_state =
  workflow :: workflow
  all_tasks_with_status :: "task_with_status list"

text \<open>
  The lockable object, with the attributes the locks read. The optional ones are
  \<^verbatim>\<open>None\<close> when absent. \<^verbatim>\<open>is_Page_instance\<close> is \<^verbatim>\<open>isinstance(object, Page)\<close>,
  \<^verbatim>\<open>get_admin_display_title\<close> the result of the method of that name and
  \<^verbatim>\<open>meta_verbose_name\<close> is \<^verbatim>\<open>object._meta.verbose_name\<close>.
\<close>

record lockable =
  is_Page_instance :: bool
  locked :: bool
  locked_by_id :: "int option"
  locked_by :: "user option"
  locked_at :: "datetime option"
  get_admin_display_title :: string
  meta_verbose_name :: string
  scheduled_revision :: "revision option"
  current_workflow_state :: "workflow_state option"

text \<open>
  Modelled from the spec: the workflow task class is not part of this module. The spec
  calls \<^verbatim>\<open>task.page_locked_for_user(page, user)\<close> the task's own "is this page locked for
  this user" rule; it is taken here as a parameter of the task, a predicate of the page
  and the user.
\<close>

record task =
  task_name :: string
  page_locked_for_user :: "lockable \<Rightarrow> user \<Rightarrow> bool"

text \<open>
  The Django settings object; the attribute is \<^verbatim>\<open>None\<close> here when the project does not
  define it.
\<close>

record settings =
  WAGTAILADMIN_GLOBAL_PAGE_EDIT_LOCK :: "bool option"

text \<open>\<^verbatim>\<open>getattr(obj, name, default)\<close> on an attribute that may be missing.\<close>

definition getattr_default :: "'a option \<Rightarrow> 'a \<Rightarrow> 'a" where
  "getattr_default attr d = (case attr of None \<Rightarrow> d | Some v \<Rightarrow> v)"

section \<open>The locks\<close>

text \<open>The attributes \<^verbatim>\<open>BaseLock.__init__\<close> sets; \<^verbatim>\<open>WorkflowLock\<close> adds its task.\<close>

record base_lock =
  object :: lockable
  is_page :: bool

record workflow_lock = base_lock +
  task :: task

definition BaseLock_init :: "lockable \<Rightarrow> base_lock" where
  "BaseLock_init obj = \<lparr>object = obj, is_page = is_Page_instance obj\<rparr>"

definition WorkflowLock_init :: "lockable \<Rightarrow> task \<Rightarrow> workflow_lock" where
  "WorkflowLock_init obj t = \<lparr>object = obj, is_page = is_Page_instance obj, task = t\<rparr>"

text \<open>
  Every method is a state transformer: it takes the lock (\<^verbatim>\<open>self\<close>, which holds the
  lockable object) and the user, and returns its result together with the lock and the
  user as they are when it returns.
\<close>

subsection \<open>BaseLock\<close>

definition BaseLock_for_user :: "base_lock \<Rightarrow> user \<Rightarrow> pyval \<times> base_lock \<times> user" where
  "BaseLock_for_user self user = (PyNotImplemented, self, user)"

definition BaseLock_get_message ::
  "base_lock \<Rightarrow> user \<Rightarrow> (error + pyval) \<times> base_lock \<times> user" where
  "BaseLock_get_message self user = (Inr PyNone, self, user)"

subsection \<open>BasicLock\<close>

definition BasicLock_for_user ::
  "settings \<Rightarrow> base_lock \<Rightarrow> user \<Rightarrow> pyval \<times> base_lock \<times> user" where
  "BasicLock_for_user conf self user =
     (if getattr_default (WAGTAILADMIN_GLOBAL_PAGE_EDIT_LOCK conf) False
      then (PyBool True, self, user)
      else (PyBool (pk user \<noteq> locked_by_id (object self)), self, user))"

definition locked_by_you_at :: string where
  "locked_by_you_at =
     ''<b>Page '{page_title}' was locked</b> by <b>you</b> on <b>{datetime}</b>.''"

definition locked_by_you :: string where
  "locked_by_you = ''<b>Page '{page_title}' is locked</b> by <b>you</b>.''"

definition locked_by_user_at :: string where
  "locked_by_user_at =
     ''<b>Page '{page_title}' was locked</b> by <b>{user}</b> on <b>{datetime}</b>.''"

definition locked_generic :: string where
  "locked_generic = ''<b>Page '{page_title}' is locked</b>.''"

definition datetime_format :: string where
  "datetime_format = ''%d %b %Y %H:%M''"

definition BasicLock_get_message ::
  "base_lock \<Rightarrow> user \<Rightarrow> (error + pyval) \<times> base_lock \<times> user" where
  "BasicLock_get_message self user =
     (if locked_by_id (object self) = pk user then
        (case locked_at (object self) of
           Some at \<Rightarrow>
             (Inr (PyStr (format_html (gettext locked_by_you_at)
                [(''page_title'', Str (get_admin_display_title (object self))),
                 (''datetime'', Strftime at datetime_format)])), self, user)
         | None \<Rightarrow>
             (Inr (PyStr (format_html (gettext locked_by_you)
                [(''page_title'', Str (get_admin_display_title (object self)))])),
              self, user))
      else
        (case (locked_by (object self), locked_at (object self)) of
           (Some by, Some at) \<Rightarrow>
             (Inr (PyStr (format_html (gettext locked_by_user_at)
                [(''page_title'', Str (get_admin_display_title (object self))),
                 (''user'', Str (str_user by)),
                 (''datetime'', Strftime at datetime_format)])), self, user)
         | _ \<Rightarrow>
             (Inr (PyStr (format_html (gettext locked_generic)
                [(''page_title'', Str (get_admin_display_title (object self)))])),
              self, user)))"

subsection \<open>WorkflowLock\<close>

definition WorkflowLock_for_user ::
  "workflow_lock \<Rightarrow> user \<Rightarrow> pyval \<times> workflow_lock \<times> user" where
  "WorkflowLock_for_user self user =
     (PyBool (page_locked_for_user (task self) (object self) user), self, user)"

definition awaiting_moderation :: string where
  "awaiting_moderation = ''This page is currently awaiting moderation.''"

definition awaiting_task :: string where
  "awaiting_task =
     ''This page is awaiting <b>'{task_name}'</b> in the <b>'{workflow_name}'</b> workflow.''"

definition only_reviewers :: string where
  "only_reviewers = ''Only reviewers for this task can edit the page.''"

text \<open>
  When \<^verbatim>\<open>for_user\<close> is false the method falls off its end and returns \<^verbatim>\<open>None\<close>.
  \<^verbatim>\<open>self.object.current_workflow_state.all_tasks_with_status()\<close> raises when the object
  has no current workflow state.
\<close>

definition WorkflowLock_get_message ::
  "workflow_lock \<Rightarrow> user \<Rightarrow> (error + pyval) \<times> workflow_lock \<times> user" where
  "WorkflowLock_get_message self0 user0 =
     (case WorkflowLock_for_user self0 user0 of (applies, self, user) \<Rightarrow>
        if truthy applies then
          (case current_workflow_state (object self) of
             None \<Rightarrow> (Inl AttributeError, self, user)
           | Some ws \<Rightarrow>
               (let workflow_info =
                  (if length (all_tasks_with_status ws) = 1
                   then gettext awaiting_moderation
                   else format_html (gettext awaiting_task)
                     [(''task_name'', Str (task_name (task self))),
                      (''workflow_name'', Str (workflow_name (workflow ws)))])
                in (Inr (PyStr (mark_safe
                      (Concat (Concat workflow_info (Literal '' ''))
                         (gettext only_reviewers)))), self, user)))
        else (Inr PyNone, self, user))"

subsection \<open>ScheduledForPublishLock\<close>

definition ScheduledForPublishLock_for_user ::
  "base_lock \<Rightarrow> user \<Rightarrow> pyval \<times> base_lock \<times> user" where
  "ScheduledForPublishLock_for_user self user = (PyBool True, self, user)"

definition scheduled_page :: string where
  "scheduled_page =
     ''Page '{page_title}' is locked and has been scheduled to go live at {datetime}''"

definition scheduled_model :: string where
  "scheduled_model =
     ''{model_name} '{title}' is locked and has been scheduled to go live at {datetime}''"

text \<open>
  \<^verbatim>\<open>scheduled_revision.approved_go_live_at\<close> and \<^verbatim>\<open>scheduled_revision.object_str\<close> raise
  when the scheduled revision is \<^verbatim>\<open>None\<close>, and \<^verbatim>\<open>.strftime\<close> raises when the go-live
  time is \<^verbatim>\<open>None\<close>.
\<close>

definition ScheduledForPublishLock_get_message ::
  "base_lock \<Rightarrow> user \<Rightarrow> (error + pyval) \<times> base_lock \<times> user" where
  "ScheduledForPublishLock_get_message self user =
     (let rev = scheduled_revision (object self) in
      if is_page self then
        (case rev of
           None \<Rightarrow> (Inl AttributeError, self, user)
         | Some r \<Rightarrow>
             (case approved_go_live_at r of
                None \<Rightarrow> (Inl AttributeError, self, user)
              | Some at \<Rightarrow>
                  (Inr (PyStr (format_html (gettext scheduled_page)
                     [(''page_title'', Str (get_admin_display_title (object self))),
                      (''datetime'', Strftime at datetime_format)])), self, user)))
      else
        (case rev of
           None \<Rightarrow> (Inl AttributeError, self, user)
         | Some r \<Rightarrow>
             (case approved_go_live_at r of
                None \<Rightarrow> (Inl AttributeError, self, user)
              | Some at \<Rightarrow>
                  (Inr (PyStr (mark_safe (capfirst (format_html (gettext scheduled_model)
                     [(''model_name'', Str (meta_verbose_name (object self))),
                      (''title'', Str (object_str r)),
                      (''datetime'', Strftime at datetime_format)])))), self, user))))"

subsection \<open>The lock variants and method dispatch\<close>

datatype lock =
    BasicLock base_lock
  | WorkflowLock workflow_lock
  | ScheduledForPublishLock base_lock

fun call_for_user :: "settings \<Rightarrow> lock \<Rightarrow> user \<Rightarrow> pyval \<times> lock \<times> user" where
  "call_for_user conf (BasicLock self) user =
     (case BasicLock_for_user conf self user of (r, self', user') \<Rightarrow> (r, BasicLock self', user'))"
| "call_for_user conf (WorkflowLock self) user =
     (case WorkflowLock_for_user self user of (r, self', user') \<Rightarrow> (r, WorkflowLock self', user'))"
| "call_for_user conf (ScheduledForPublishLock self) user =
     (case ScheduledForPublishLock_for_user self user of
        (r, self', user') \<Rightarrow> (r, ScheduledForPublishLock self', user'))"

fun call_get_message :: "lock \<Rightarrow> user \<Rightarrow> (error + pyval) \<times> lock \<times> user" where
  "call_get_message (BasicLock self) user =
     (case BasicLock_get_message self user of (r, self', user') \<Rightarrow> (r, BasicLock self', user'))"
| "call_get_message (WorkflowLock self) user =
     (case WorkflowLock_get_message self user of
        (r, self', user') \<Rightarrow> (r, WorkflowLock self', user'))"
| "call_get_message (ScheduledForPublishLock self) user =
     (case ScheduledForPublishLock_get_message self user of
        (r, self', user') \<Rightarrow> (r, ScheduledForPublishLock self', user'))"

text \<open>The value a call returns.\<close>

definition for_user :: "settings \<Rightarrow> lock \<Rightarrow> user \<Rightarrow> pyval" where
  "for_user conf l user = fst (call_for_user conf l user)"

definition get_message :: "lock \<Rightarrow> user \<Rightarrow> error + pyval" where
  "get_message l user = fst (call_get_message l user)"

subsection \<open>Which wording a message uses\<close>

text \<open>The msgid of a message that is one \<^verbatim>\<open>format_html\<close> call on a translated template.\<close>

fun message_template :: "error + pyval \<Rightarrow> string option" where
  "message_template (Inr (PyStr (format_html (gettext msgid) kwargs))) = Some msgid"
| "message_template r = None"

text \<open>
  The two templates of the first branch of \<^verbatim>\<open>BasicLock.get_message\<close> say "by you".
  Of the two of its second branch, one names the locking user; the other, the fallback
  for a page locked without a recorded user or time, names nobody.
\<close>

definition locked_by_you_wording :: "error + pyval \<Rightarrow> bool" where
  "locked_by_you_wording r =
     (message_template r = Some locked_by_you_at \<or> message_template r = Some locked_by_you)"

definition third_party_wording :: "error + pyval \<Rightarrow> bool" where
  "third_party_wording r = (message_template r = Some locked_by_user_at)"

definition generic_wording :: "error + pyval \<Rightarrow> bool" where
  "generic_wording r = (message_template r = Some locked_generic)"

section \<open>Sample objects\<close>

definition alice :: user where
  "alice = \<lparr>pk = Some 7, username = ''alice''\<rparr>"

definition bob :: user where
  "bob = \<lparr>pk = Some 8, username = ''bob''\<rparr>"

definition anonymous :: user where
  "anonymous = \<lparr>pk = None, username = []\<rparr>"

definition new_year :: datetime where
  "new_year = \<lparr>year = 2024, month = 1, day = 1, hour = 9, minute = 30\<rparr>"

text \<open>A page locked by alice, with no scheduled revision and no workflow in progress.\<close>

definition home_page :: lockable where
  "home_page =
     \<lparr>is_Page_instance = True, locked = True, locked_by_id = Some 7,
      locked_by = Some alice, locked_at = Some new_year,
      get_admin_display_title = ''Home'', meta_verbose_name = ''page'',
      scheduled_revision = None, current_workflow_state = None\<rparr>"

text \<open>A page locked by a script: nobody and no time recorded.\<close>

definition legacy_page :: lockable where
  "legacy_page = home_page\<lparr>locked_by_id := None, locked_by := None, locked_at := None\<rparr>"

definition scheduled_page_object :: lockable where
  "scheduled_page_object =
     home_page\<lparr>scheduled_revision :=
       Some \<lparr>approved_go_live_at = Some new_year, object_str = ''Home''\<rparr>\<rparr>"

definition moderated_page :: lockable where
  "moderated_page =
     home_page\<lparr>current_workflow_state :=
       Some \<lparr>workflow = \<lparr>workflow_name = ''Moderators approval''\<rparr>,
             all_tasks_with_status =
               [\<lparr>listed_task_name = ''Review'', status = ''in_progress''\<rparr>]\<rparr>\<rparr>"

text \<open>A task that locks the page for everybody but alice, and one that locks it for all.\<close>

definition review_task :: task where
  "review_task = \<lparr>task_name = ''Review'', page_locked_for_user = (\<lambda>page u. pk u \<noteq> Some 7)\<rparr>"

definition strict_task :: task where
  "strict_task = \<lparr>task_name = ''Freeze'', page_locked_for_user = (\<lambda>page u. True)\<rparr>"

definition no_setting :: settings where
  "no_setting = \<lparr>WAGTAILADMIN_GLOBAL_PAGE_EDIT_LOCK = None\<rparr>"

definition global_lock_on :: settings where
  "global_lock_on = \<lparr>WAGTAILADMIN_GLOBAL_PAGE_EDIT_LOCK = Some True\<rparr>"

section \<open>Properties\<close>

lemmas sample_defs =
  alice_def bob_def anonymous_def new_year_def home_page_def legacy_page_def
  scheduled_page_object_def moderated_page_def review_task_def strict_task_def
  no_setting_def global_lock_on_def BaseLock_init_def WorkflowLock_init_def
  getattr_default_def

lemmas template_defs =
  locked_by_you_at_def locked_by_you_def locked_by_user_at_def locked_generic_def

subsection \<open>Results of the single methods\<close>

lemma BasicLock_for_user_value:
  "for_user conf (BasicLock self) user =
     PyBool (getattr_default (WAGTAILADMIN_GLOBAL_PAGE_EDIT_LOCK conf) False
             \<or> pk user \<noteq> locked_by_id (object self))"
  by (simp add: for_user_def BasicLock_for_user_def)

lemma WorkflowLock_for_user_value:
  "for_user conf (WorkflowLock self) user =
     PyBool (page_locked_for_user (task self) (object self) user)"
  by (simp add: for_user_def WorkflowLock_for_user_def)

lemma BasicLock_get_message_value:
  "get_message (BasicLock self) user =
     Inr (PyStr
       (if locked_by_id (object self) = pk user then
          (case locked_at (object self) of
             Some at \<Rightarrow> format_html (gettext locked_by_you_at)
               [(''page_title'', Str (get_admin_display_title (object self))),
                (''datetime'', Strftime at datetime_format)]
           | None \<Rightarrow> format_html (gettext locked_by_you)
               [(''page_title'', Str (get_admin_display_title (object self)))])
        else
          (case (locked_by (object self), locked_at (object self)) of
             (Some by, Some at) \<Rightarrow> format_html (gettext locked_by_user_at)
               [(''page_title'', Str (get_admin_display_title (object self))),
                (''user'', Str (str_user by)),
                (''datetime'', Strftime at datetime_format)]
           | _ \<Rightarrow> format_html (gettext locked_generic)
               [(''page_title'', Str (get_admin_display_title (object self)))])))"
  by (simp add: get_message_def BasicLock_get_message_def split: option.splits)

lemma WorkflowLock_get_message_unlocked:
  "\<not> page_locked_for_user (task self) (object self) user \<Longrightarrow>
   get_message (WorkflowLock self) user = Inr PyNone"
  by (simp add: get_message_def WorkflowLock_get_message_def WorkflowLock_for_user_def)

lemma WorkflowLock_get_message_no_state:
  "page_locked_for_user (task self) (object self) user \<Longrightarrow>
   current_workflow_state (object self) = None \<Longrightarrow>
   get_message (WorkflowLock self) user = Inl AttributeError"
  by (simp add: get_message_def WorkflowLock_get_message_def WorkflowLock_for_user_def)

lemma WorkflowLock_get_message_locked:
  "page_locked_for_user (task self) (object self) user \<Longrightarrow>
   current_workflow_state (object self) = Some ws \<Longrightarrow>
   \<exists>t. get_message (WorkflowLock self) user = Inr (PyStr t)"
  by (simp add: get_message_def WorkflowLock_get_message_def WorkflowLock_for_user_def Let_def)

lemma ScheduledForPublishLock_get_message_no_revision:
  "scheduled_revision (object self) = None \<Longrightarrow>
   get_message (ScheduledForPublishLock self) user = Inl AttributeError"
  by (simp add: get_message_def ScheduledForPublishLock_get_message_def Let_def)

lemma ScheduledForPublishLock_get_message_no_time:
  "scheduled_revision (object self) = Some r \<Longrightarrow> approved_go_live_at r = None \<Longrightarrow>
   get_message (ScheduledForPublishLock self) user = Inl AttributeError"
  by (simp add: get_message_def ScheduledForPublishLock_get_message_def Let_def)

lemma ScheduledForPublishLock_get_message_scheduled:
  "scheduled_revision (object self) = Some r \<Longrightarrow> approved_go_live_at r = Some at \<Longrightarrow>
   \<exists>t. get_message (ScheduledForPublishLock self) user = Inr (PyStr t)"
  by (simp add: get_message_def ScheduledForPublishLock_get_message_def Let_def)

subsection \<open>BasicLock.for_user\<close>

text \<open>
  C1. \<^verbatim>\<open>BasicLock.for_user(user)\<close> returns \<^verbatim>\<open>False\<close> if and only if the global lock
  setting is disabled (missing or false) and the user's pk equals the object's
  \<^verbatim>\<open>locked_by_id\<close>; in every other case it returns \<^verbatim>\<open>True\<close>.
\<close>

theorem BasicLock_for_user_false_iff:
  "(for_user conf (BasicLock self) user = PyBool False) =
     (\<not> getattr_default (WAGTAILADMIN_GLOBAL_PAGE_EDIT_LOCK conf) False \<and>
      pk user = locked_by_id (object self))
   \<and> (for_user conf (BasicLock self) user = PyBool True) =
     (\<not> (\<not> getattr_default (WAGTAILADMIN_GLOBAL_PAGE_EDIT_LOCK conf) False \<and>
         pk user = locked_by_id (object self)))"
  by (auto simp: BasicLock_for_user_value)

theorem BasicLock_for_user_false_iff_witness:
  "for_user no_setting (BasicLock (BaseLock_init home_page)) alice = PyBool False
   \<and> for_user no_setting (BasicLock (BaseLock_init home_page)) bob = PyBool True
   \<and> for_user global_lock_on (BasicLock (BaseLock_init home_page)) alice = PyBool True"
  using BasicLock_for_user_false_iff [of no_setting "BaseLock_init home_page" alice]
    BasicLock_for_user_false_iff [of no_setting "BaseLock_init home_page" bob]
    BasicLock_for_user_false_iff [of global_lock_on "BaseLock_init home_page" alice]
  by (simp add: sample_defs)

text \<open>
  C7. \<^verbatim>\<open>BasicLock.for_user\<close> is a function of three values only: two calls that agree
  on the object's \<^verbatim>\<open>locked_by_id\<close>, on the global lock setting as read with its default
  and on the user's pk return the same result, whatever else differs.
\<close>

theorem BasicLock_for_user_deterministic:
  assumes "locked_by_id (object self1) = locked_by_id (object self2)"
    and "getattr_default (WAGTAILADMIN_GLOBAL_PAGE_EDIT_LOCK conf1) False =
         getattr_default (WAGTAILADMIN_GLOBAL_PAGE_EDIT_LOCK conf2) False"
    and "pk user1 = pk user2"
  shows "for_user conf1 (BasicLock self1) user1 = for_user conf2 (BasicLock self2) user2"
  using assms by (simp add: BasicLock_for_user_value)

theorem BasicLock_for_user_deterministic_witness:
  "for_user no_setting (BasicLock (BaseLock_init home_page)) bob =
   for_user \<lparr>WAGTAILADMIN_GLOBAL_PAGE_EDIT_LOCK = Some False\<rparr>
     (BasicLock \<lparr>object = scheduled_page_object, is_page = False\<rparr>)
     \<lparr>pk = Some 8, username = ''robert''\<rparr>"
  by (rule BasicLock_for_user_deterministic) (simp_all add: sample_defs)

text \<open>
  C8. With the global lock setting disabled, an object whose \<^verbatim>\<open>locked_by_id\<close> is
  \<^verbatim>\<open>None\<close> and a user whose pk is \<^verbatim>\<open>None\<close>, \<^verbatim>\<open>BasicLock.for_user\<close> returns \<^verbatim>\<open>False\<close>:
  \<^verbatim>\<open>None != None\<close> is false.
\<close>

theorem BasicLock_for_user_none_pk:
  assumes "\<not> getattr_default (WAGTAILADMIN_GLOBAL_PAGE_EDIT_LOCK conf) False"
    and "locked_by_id (object self) = None"
    and "pk user = None"
  shows "for_user conf (BasicLock self) user = PyBool False"
  using assms by (simp add: BasicLock_for_user_value)

theorem BasicLock_for_user_none_pk_witness:
  "for_user no_setting (BasicLock (BaseLock_init legacy_page)) anonymous = PyBool False"
  by (rule BasicLock_for_user_none_pk) (simp_all add: sample_defs)

subsection \<open>ScheduledForPublishLock.for_user and WorkflowLock.for_user\<close>

text \<open>
  C2. \<^verbatim>\<open>ScheduledForPublishLock.for_user(user)\<close> returns \<^verbatim>\<open>True\<close> for every user,
  every object and every setting.
\<close>

theorem ScheduledForPublishLock_for_user_true:
  "for_user conf (ScheduledForPublishLock self) user = PyBool True"
  by (simp add: for_user_def ScheduledForPublishLock_for_user_def)

theorem ScheduledForPublishLock_for_user_true_witness:
  "for_user no_setting (ScheduledForPublishLock (BaseLock_init scheduled_page_object)) alice
     = PyBool True
   \<and> for_user no_setting (ScheduledForPublishLock (BaseLock_init legacy_page)) anonymous
     = PyBool True"
  using ScheduledForPublishLock_for_user_true
    [of no_setting "BaseLock_init scheduled_page_object" alice]
    ScheduledForPublishLock_for_user_true [of no_setting "BaseLock_init legacy_page" anonymous]
  by simp

text \<open>
  C3. \<^verbatim>\<open>WorkflowLock.for_user(user)\<close> returns exactly the value of the task's rule
  \<^verbatim>\<open>task.page_locked_for_user(object, user)\<close>.
\<close>

theorem WorkflowLock_for_user_delegates:
  "for_user conf (WorkflowLock self) user =
     PyBool (page_locked_for_user (task self) (object self) user)"
  by (simp add: for_user_def WorkflowLock_for_user_def)

theorem WorkflowLock_for_user_delegates_witness:
  "for_user no_setting (WorkflowLock (WorkflowLock_init moderated_page review_task)) alice
     = PyBool False
   \<and> for_user no_setting (WorkflowLock (WorkflowLock_init moderated_page review_task)) bob
     = PyBool True"
  using WorkflowLock_for_user_delegates
    [of no_setting "WorkflowLock_init moderated_page review_task" alice]
    WorkflowLock_for_user_delegates
    [of no_setting "WorkflowLock_init moderated_page review_task" bob]
  by (simp add: sample_defs)

subsection \<open>Frame and result kinds\<close>

text \<open>
  C5. Neither \<^verbatim>\<open>for_user\<close> nor \<^verbatim>\<open>get_message\<close> changes anything: for every lock variant
  the lock (with its object and, for a workflow lock, its task) and the user are the same
  after the call as before, also when \<^verbatim>\<open>get_message\<close> raises.
\<close>

theorem methods_change_nothing:
  "snd (call_for_user conf l user) = (l, user) \<and> snd (call_get_message l user) = (l, user)"
proof (cases l)
  case (BasicLock self)
  then show ?thesis
    by (simp add: BasicLock_for_user_def BasicLock_get_message_def split: option.splits)
next
  case (WorkflowLock self)
  then show ?thesis
    by (simp add: WorkflowLock_for_user_def WorkflowLock_get_message_def Let_def
        split: option.splits)
next
  case (ScheduledForPublishLock self)
  then show ?thesis
    by (simp add: ScheduledForPublishLock_for_user_def
        ScheduledForPublishLock_get_message_def Let_def split: option.splits)
qed

theorem methods_change_nothing_witness:
  "snd (call_for_user no_setting (BasicLock (BaseLock_init home_page)) bob) =
     (BasicLock (BaseLock_init home_page), bob)
   \<and> snd (call_get_message (ScheduledForPublishLock (BaseLock_init home_page)) bob) =
     (ScheduledForPublishLock (BaseLock_init home_page), bob)"
  using methods_change_nothing [of no_setting "BasicLock (BaseLock_init home_page)" bob]
    methods_change_nothing
    [of no_setting "ScheduledForPublishLock (BaseLock_init home_page)" bob]
  by simp



subsection \<open>Messages when optional fields are absent\<close>

text \<open>
  C4, as stated: for every lock variant \<^verbatim>\<open>get_message\<close> returns a fallback message or
  \<^verbatim>\<open>None\<close> when an optional field, the scheduled revision included, is absent. It does
  not for a \<^verbatim>\<open>ScheduledForPublishLock\<close> on an object with no scheduled revision:
  \<^verbatim>\<open>scheduled_revision.approved_go_live_at\<close> raises \<^verbatim>\<open>AttributeError\<close>.
\<close>

theorem scheduled_message_without_revision_raises:
  "scheduled_revision home_page = None \<and>
   get_message (ScheduledForPublishLock (BaseLock_init home_page)) alice = Inl AttributeError"
  by (simp add: get_message_def ScheduledForPublishLock_get_message_def sample_defs)

text \<open>
  C4, amended. \<^verbatim>\<open>BasicLock.get_message\<close> never raises: it always returns text, and with
  \<^verbatim>\<open>locked_at\<close> absent, or with \<^verbatim>\<open>locked_by\<close> absent for a user other than the locker,
  that text is a fallback without the missing value. \<^verbatim>\<open>WorkflowLock.get_message\<close>
  returns whenever the lock does not apply or the object has a current workflow state.
  \<^verbatim>\<open>ScheduledForPublishLock.get_message\<close> returns text when the scheduled revision and
  its go-live time are present, and raises \<^verbatim>\<open>AttributeError\<close> when either is absent.
\<close>

theorem get_message_absent_fields:
  "(\<exists>t. get_message (BasicLock self) user = Inr (PyStr t))
   \<and> (locked_at (object self) = None \<longrightarrow>
        get_message (BasicLock self) user =
          Inr (PyStr (format_html
            (gettext (if locked_by_id (object self) = pk user
                      then locked_by_you else locked_generic))
            [(''page_title'', Str (get_admin_display_title (object self)))])))
   \<and> (locked_by (object self) = None \<and> locked_by_id (object self) \<noteq> pk user \<longrightarrow>
        get_message (BasicLock self) user =
          Inr (PyStr (format_html (gettext locked_generic)
            [(''page_title'', Str (get_admin_display_title (object self)))])))
   \<and> (\<not> page_locked_for_user (task wself) (object wself) user
        \<or> current_workflow_state (object wself) \<noteq> None \<longrightarrow>
        (\<exists>v. get_message (WorkflowLock wself) user = Inr v))
   \<and> (\<forall>r at. scheduled_revision (object self) = Some r \<and> approved_go_live_at r = Some at \<longrightarrow>
        (\<exists>t. get_message (ScheduledForPublishLock self) user = Inr (PyStr t)))
   \<and> (scheduled_revision (object self) = None
        \<or> (\<exists>r. scheduled_revision (object self) = Some r \<and> approved_go_live_at r = None) \<longrightarrow>
        get_message (ScheduledForPublishLock self) user = Inl AttributeError)"
proof -
  have basic: "\<exists>t. get_message (BasicLock self) user = Inr (PyStr t)"
    by (simp add: BasicLock_get_message_value)
  have no_time: "locked_at (object self) = None \<longrightarrow>
      get_message (BasicLock self) user =
        Inr (PyStr (format_html
          (gettext (if locked_by_id (object self) = pk user
                    then locked_by_you else locked_generic))
          [(''page_title'', Str (get_admin_display_title (object self)))]))"
    by (simp add: BasicLock_get_message_value split: option.splits)
  have no_locker: "locked_by (object self) = None \<and> locked_by_id (object self) \<noteq> pk user \<longrightarrow>
      get_message (BasicLock self) user =
        Inr (PyStr (format_html (gettext locked_generic)
          [(''page_title'', Str (get_admin_display_title (object self)))]))"
    by (simp add: BasicLock_get_message_value)
  have wf: "\<not> page_locked_for_user (task wself) (object wself) user
      \<or> current_workflow_state (object wself) \<noteq> None \<longrightarrow>
      (\<exists>v. get_message (WorkflowLock wself) user = Inr v)"
    using WorkflowLock_get_message_unlocked [of wself user]
      WorkflowLock_get_message_locked [of wself user]
    by (cases "page_locked_for_user (task wself) (object wself) user") auto
  have sched: "\<forall>r at. scheduled_revision (object self) = Some r \<and> approved_go_live_at r = Some at
      \<longrightarrow> (\<exists>t. get_message (ScheduledForPublishLock self) user = Inr (PyStr t))"
    using ScheduledForPublishLock_get_message_scheduled [of self _ _ user] by blast
  have unsched: "scheduled_revision (object self) = None
      \<or> (\<exists>r. scheduled_revision (object self) = Some r \<and> approved_go_live_at r = None) \<longrightarrow>
      get_message (ScheduledForPublishLock self) user = Inl AttributeError"
    using ScheduledForPublishLock_get_message_no_revision [of self user]
      ScheduledForPublishLock_get_message_no_time [of self _ user]
    by blast
  from basic no_time no_locker wf sched unsched show ?thesis by blast
qed

theorem get_message_absent_fields_witness:
  "locked_at (object (BaseLock_init legacy_page)) = None
   \<and> locked_by (object (BaseLock_init legacy_page)) = None
   \<and> get_message (BasicLock (BaseLock_init legacy_page)) bob =
       Inr (PyStr (format_html (gettext locked_generic) [(''page_title'', Str ''Home'')]))
   \<and> get_message (BasicLock (BaseLock_init legacy_page)) anonymous =
       Inr (PyStr (format_html (gettext locked_by_you) [(''page_title'', Str ''Home'')]))
   \<and> scheduled_revision (object (BaseLock_init legacy_page)) = None
   \<and> get_message (ScheduledForPublishLock (BaseLock_init legacy_page)) bob
       = Inl AttributeError
   \<and> current_workflow_state (object (WorkflowLock_init moderated_page strict_task)) \<noteq> None
   \<and> (\<exists>v. get_message (WorkflowLock (WorkflowLock_init moderated_page strict_task)) bob
            = Inr v)
   \<and> scheduled_revision (object (BaseLock_init scheduled_page_object)) =
       Some \<lparr>approved_go_live_at = Some new_year, object_str = ''Home''\<rparr>
   \<and> (\<exists>t. get_message (ScheduledForPublishLock (BaseLock_init scheduled_page_object)) bob
            = Inr (PyStr t))"
proof -
  have a: "locked_at (object (BaseLock_init legacy_page)) = None"
    "locked_by (object (BaseLock_init legacy_page)) = None"
    "locked_by_id (object (BaseLock_init legacy_page)) \<noteq> pk bob"
    "locked_by_id (object (BaseLock_init legacy_page)) = pk anonymous"
    "scheduled_revision (object (BaseLock_init legacy_page)) = None"
    "get_admin_display_title (object (BaseLock_init legacy_page)) = ''Home''"
    by (simp_all add: sample_defs)
  have b: "current_workflow_state (object (WorkflowLock_init moderated_page strict_task)) \<noteq> None"
    by (simp add: sample_defs)
  have c: "scheduled_revision (object (BaseLock_init scheduled_page_object)) =
      Some \<lparr>approved_go_live_at = Some new_year, object_str = ''Home''\<rparr>"
    "approved_go_live_at \<lparr>approved_go_live_at = Some new_year, object_str = ''Home''\<rparr>
      = Some new_year"
    by (simp_all add: sample_defs)
  note bob_case = get_message_absent_fields
    [of "BaseLock_init legacy_page" bob "WorkflowLock_init moderated_page strict_task"]
  note anon_case = get_message_absent_fields
    [of "BaseLock_init legacy_page" anonymous "WorkflowLock_init moderated_page strict_task"]
  note sched_case = get_message_absent_fields
    [of "BaseLock_init scheduled_page_object" bob
      "WorkflowLock_init moderated_page strict_task"]
  have 1: "get_message (BasicLock (BaseLock_init legacy_page)) bob =
       Inr (PyStr (format_html (gettext locked_generic) [(''page_title'', Str ''Home'')]))"
    using bob_case a by simp
  have 2: "get_message (BasicLock (BaseLock_init legacy_page)) anonymous =
       Inr (PyStr (format_html (gettext locked_by_you) [(''page_title'', Str ''Home'')]))"
    using anon_case a by simp
  have 3: "get_message (ScheduledForPublishLock (BaseLock_init legacy_page)) bob
       = Inl AttributeError"
    using bob_case a by simp
  have 4: "\<exists>v. get_message (WorkflowLock (WorkflowLock_init moderated_page strict_task)) bob
            = Inr v"
    using bob_case b by blast
  have 5: "\<exists>t. get_message (ScheduledForPublishLock (BaseLock_init scheduled_page_object)) bob
            = Inr (PyStr t)"
    using sched_case c by blast
  from a b c 1 2 3 4 5 show ?thesis by simp
qed

subsection \<open>WorkflowLock: message and decision\<close>

text \<open>
  C9, as stated: \<^verbatim>\<open>WorkflowLock.get_message\<close> returns a message if and only if
  \<^verbatim>\<open>for_user\<close> is true. On an object with no current workflow state the lock can apply
  to the user while \<^verbatim>\<open>get_message\<close> raises instead of returning a message.
\<close>

theorem workflow_message_without_state_raises:
  "for_user no_setting (WorkflowLock (WorkflowLock_init home_page strict_task)) bob
     = PyBool True
   \<and> get_message (WorkflowLock (WorkflowLock_init home_page strict_task)) bob
     = Inl AttributeError"
  by (simp add: WorkflowLock_for_user_value get_message_def WorkflowLock_get_message_def
      WorkflowLock_for_user_def sample_defs)

text \<open>
  C9, amended. On an object that has a current workflow state, \<^verbatim>\<open>get_message\<close> returns a
  message if and only if \<^verbatim>\<open>for_user\<close> is true. When the lock does not apply to the user
  \<^verbatim>\<open>get_message\<close> returns \<^verbatim>\<open>None\<close>, with or without a workflow state. When the lock
  applies and the object has no current workflow state, \<^verbatim>\<open>get_message\<close> raises
  \<^verbatim>\<open>AttributeError\<close>.
\<close>

theorem WorkflowLock_message_iff_locked:
  "(current_workflow_state (object self) \<noteq> None \<longrightarrow>
      (\<exists>t. get_message (WorkflowLock self) user = Inr (PyStr t)) =
      (for_user conf (WorkflowLock self) user = PyBool True))
   \<and> (for_user conf (WorkflowLock self) user = PyBool False \<longrightarrow>
        get_message (WorkflowLock self) user = Inr PyNone)
   \<and> (current_workflow_state (object self) = None \<and>
        for_user conf (WorkflowLock self) user = PyBool True \<longrightarrow>
        get_message (WorkflowLock self) user = Inl AttributeError)"
proof (cases "page_locked_for_user (task self) (object self) user")
  case True
  then show ?thesis
    using WorkflowLock_get_message_locked [of self user]
      WorkflowLock_get_message_no_state [of self user]
    by (auto simp: WorkflowLock_for_user_value)
next
  case False
  then show ?thesis
    using WorkflowLock_get_message_unlocked [of self user]
    by (simp add: WorkflowLock_for_user_value)
qed

theorem WorkflowLock_message_iff_locked_witness:
  "current_workflow_state (object (WorkflowLock_init moderated_page review_task)) \<noteq> None
   \<and> for_user no_setting (WorkflowLock (WorkflowLock_init moderated_page review_task)) bob
       = PyBool True
   \<and> (\<exists>t. get_message (WorkflowLock (WorkflowLock_init moderated_page review_task)) bob
            = Inr (PyStr t))
   \<and> for_user no_setting (WorkflowLock (WorkflowLock_init moderated_page review_task)) alice
       = PyBool False
   \<and> get_message (WorkflowLock (WorkflowLock_init moderated_page review_task)) alice
       = Inr PyNone
   \<and> current_workflow_state (object (WorkflowLock_init home_page strict_task)) = None
   \<and> for_user no_setting (WorkflowLock (WorkflowLock_init home_page strict_task)) alice
       = PyBool True
   \<and> get_message (WorkflowLock (WorkflowLock_init home_page strict_task)) alice
       = Inl AttributeError"
proof -
  have s: "current_workflow_state (object (WorkflowLock_init moderated_page review_task))
      \<noteq> None"
    "current_workflow_state (object (WorkflowLock_init home_page strict_task)) = None"
    by (simp_all add: sample_defs)
  have f: "for_user no_setting (WorkflowLock (WorkflowLock_init moderated_page review_task)) bob
       = PyBool True"
    "for_user no_setting (WorkflowLock (WorkflowLock_init moderated_page review_task)) alice
       = PyBool False"
    "for_user no_setting (WorkflowLock (WorkflowLock_init home_page strict_task)) alice
       = PyBool True"
    by (simp_all add: WorkflowLock_for_user_value sample_defs)
  show ?thesis
    using s f
      WorkflowLock_message_iff_locked
        [of "WorkflowLock_init moderated_page review_task" bob no_setting]
      WorkflowLock_message_iff_locked
        [of "WorkflowLock_init moderated_page review_task" alice no_setting]
      WorkflowLock_message_iff_locked
        [of "WorkflowLock_init home_page strict_task" alice no_setting]
    by simp
qed

subsection \<open>BasicLock: message and decision\<close>

lemma BasicLock_message_template:
  "message_template (get_message (BasicLock self) user) =
     Some (if locked_by_id (object self) = pk user then
             (case locked_at (object self) of
                Some at \<Rightarrow> locked_by_you_at | None \<Rightarrow> locked_by_you)
           else
             (case (locked_by (object self), locked_at (object self)) of
                (Some by, Some at) \<Rightarrow> locked_by_user_at | _ \<Rightarrow> locked_generic))"
  by (simp add: BasicLock_get_message_value split: option.splits)

lemma templates_distinct:
  "locked_by_you_at \<noteq> locked_by_user_at" "locked_by_you_at \<noteq> locked_generic"
  "locked_by_you \<noteq> locked_by_user_at" "locked_by_you \<noteq> locked_generic"
  "locked_by_user_at \<noteq> locked_by_you_at" "locked_generic \<noteq> locked_by_you_at"
  "locked_by_user_at \<noteq> locked_by_you" "locked_generic \<noteq> locked_by_you"
  "locked_by_user_at \<noteq> locked_generic" "locked_generic \<noteq> locked_by_user_at"
  by (simp_all add: template_defs)

text \<open>
  C10, as stated: with the global lock setting disabled, every user for whom
  \<^verbatim>\<open>BasicLock.for_user\<close> is \<^verbatim>\<open>True\<close> gets third-party wording. On a page locked with no
  recorded user or time the lock applies to bob, and the message is the generic
  "is locked" fallback, which names nobody.
\<close>

theorem locked_for_user_with_generic_message:
  "\<not> getattr_default (WAGTAILADMIN_GLOBAL_PAGE_EDIT_LOCK no_setting) False
   \<and> for_user no_setting (BasicLock (BaseLock_init legacy_page)) bob = PyBool True
   \<and> get_message (BasicLock (BaseLock_init legacy_page)) bob =
       Inr (PyStr (format_html (gettext locked_generic) [(''page_title'', Str ''Home'')]))
   \<and> \<not> third_party_wording (get_message (BasicLock (BaseLock_init legacy_page)) bob)"
  by (simp add: BasicLock_for_user_value BasicLock_get_message_value third_party_wording_def
      templates_distinct sample_defs)

text \<open>
  C10, amended. With the global lock setting disabled, \<^verbatim>\<open>BasicLock.get_message\<close> uses
  the "locked by you" wording exactly for the users for whom \<^verbatim>\<open>for_user\<close> is \<^verbatim>\<open>False\<close>:
  the message and the decision use the same comparison of \<^verbatim>\<open>user.pk\<close> with
  \<^verbatim>\<open>locked_by_id\<close>. For the users for whom \<^verbatim>\<open>for_user\<close> is \<^verbatim>\<open>True\<close> the wording is
  third-party, naming the locker, exactly when \<^verbatim>\<open>locked_by\<close> and \<^verbatim>\<open>locked_at\<close> are both
  present, and the generic "is locked" fallback, naming nobody, exactly when one of
  them is absent.
\<close>

theorem BasicLock_wording_follows_decision:
  assumes "\<not> getattr_default (WAGTAILADMIN_GLOBAL_PAGE_EDIT_LOCK conf) False"
  shows "locked_by_you_wording (get_message (BasicLock self) user) =
           (for_user conf (BasicLock self) user = PyBool False)
         \<and> third_party_wording (get_message (BasicLock self) user) =
           (for_user conf (BasicLock self) user = PyBool True
            \<and> locked_by (object self) \<noteq> None \<and> locked_at (object self) \<noteq> None)
         \<and> generic_wording (get_message (BasicLock self) user) =
           (for_user conf (BasicLock self) user = PyBool True
            \<and> (locked_by (object self) = None \<or> locked_at (object self) = None))"
proof (cases "locked_by_id (object self) = pk user")
  case True
  then show ?thesis
    using assms
    by (auto simp: locked_by_you_wording_def third_party_wording_def generic_wording_def
        BasicLock_message_template BasicLock_for_user_value templates_distinct
        split: option.splits)
next
  case False
  then show ?thesis
    using assms
    by (auto simp: locked_by_you_wording_def third_party_wording_def generic_wording_def
        BasicLock_message_template BasicLock_for_user_value templates_distinct
        split: option.splits)
qed

theorem BasicLock_wording_follows_decision_witness:
  "\<not> getattr_default (WAGTAILADMIN_GLOBAL_PAGE_EDIT_LOCK no_setting) False
   \<and> for_user no_setting (BasicLock (BaseLock_init home_page)) alice = PyBool False
   \<and> locked_by_you_wording (get_message (BasicLock (BaseLock_init home_page)) alice)
   \<and> for_user no_setting (BasicLock (BaseLock_init home_page)) bob = PyBool True
   \<and> third_party_wording (get_message (BasicLock (BaseLock_init home_page)) bob)
   \<and> for_user no_setting (BasicLock (BaseLock_init legacy_page)) bob = PyBool True
   \<and> generic_wording (get_message (BasicLock (BaseLock_init legacy_page)) bob)
   \<and> for_user no_setting (BasicLock (BaseLock_init (home_page\<lparr>locked_at := None\<rparr>))) bob
       = PyBool True
   \<and> generic_wording
       (get_message (BasicLock (BaseLock_init (home_page\<lparr>locked_at := None\<rparr>))) bob)"
proof -
  have g: "\<not> getattr_default (WAGTAILADMIN_GLOBAL_PAGE_EDIT_LOCK no_setting) False"
    by (simp add: sample_defs)
  have f: "for_user no_setting (BasicLock (BaseLock_init home_page)) alice = PyBool False"
    "for_user no_setting (BasicLock (BaseLock_init home_page)) bob = PyBool True"
    "for_user no_setting (BasicLock (BaseLock_init legacy_page)) bob = PyBool True"
    "for_user no_setting (BasicLock (BaseLock_init (home_page\<lparr>locked_at := None\<rparr>))) bob
       = PyBool True"
    by (simp_all add: BasicLock_for_user_value sample_defs)
  have p: "locked_by (object (BaseLock_init home_page)) \<noteq> None"
    "locked_at (object (BaseLock_init home_page)) \<noteq> None"
    "locked_by (object (BaseLock_init legacy_page)) = None"
    "locked_at (object (BaseLock_init (home_page\<lparr>locked_at := None\<rparr>))) = None"
    by (simp_all add: sample_defs)
  show ?thesis
    using g f p
      BasicLock_wording_follows_decision [OF g, of "BaseLock_init home_page" alice]
      BasicLock_wording_follows_decision [OF g, of "BaseLock_init home_page" bob]
      BasicLock_wording_follows_decision [OF g, of "BaseLock_init legacy_page" bob]
      BasicLock_wording_follows_decision
        [OF g, of "BaseLock_init (home_page\<lparr>locked_at := None\<rparr>)" bob]
    by simp
qed

end
